theory Spec2Isabelle
  imports Complex_Main "HOL-Library.Word"
begin

section \<open>The dome master camera of \<^verbatim>\<open>dome_master_camera.cu\<close>\<close>

text \<open>
  The ray generation program \<^verbatim>\<open>camera_dome_general<STEREO_ON, DOF_ON>\<close> is embedded as
  a function from the launch variables of the host runtime and the external device
  functions to the sequence of calls the program makes.

  Numbers. \<^verbatim>\<open>uint\<close> is a 32-bit word with wrap-around arithmetic. \<^verbatim>\<open>float\<close> is
  modelled by \<^typ>\<open>real\<close>: every operation is the exact one, there is no rounding,
  no infinity and no NaN. Statements about values (the fisheye formula) are statements
  about the exact arithmetic that the program rounds. At an input on the boundary of a
  test (\<^verbatim>\<open>rangle < rmax\<close>, \<^verbatim>\<open>rangle == 0\<close>) the rounded arithmetic can decide the
  test the other way: the theorems about a branch are stated under the outcome of its
  test, and the inputs of the closed instances are away from the boundaries.
  Division by zero is \<open>0\<close> in HOL and infinite in the program: a launch whose
  viewport has a side of zero pixels, undefined behaviour by the specification, is not
  described by the model.
\<close>

subsection \<open>Vector types of the device math headers\<close>

type_synonym uint = "32 word"

datatype uint2 = Uint2 (u2_x: uint) (u2_y: uint)

datatype float2 = Float2 (f2_x: real) (f2_y: real)

datatype float3 = Float3 (f3_x: real) (f3_y: real) (f3_z: real)

text \<open>\<^verbatim>\<open>make_float2(a, b)\<close> on two \<^verbatim>\<open>uint\<close>: the integer to float conversion.\<close>

definition make_float2 :: "uint \<Rightarrow> uint \<Rightarrow> float2" where
  "make_float2 a b = Float2 (real (unat a)) (real (unat b))"

text \<open>\<^verbatim>\<open>make_float3(s)\<close>: the same scalar in the three components.\<close>

definition make_float3 :: "real \<Rightarrow> float3" where
  "make_float3 s = Float3 s s s"

definition add2 :: "float2 \<Rightarrow> float2 \<Rightarrow> float2" where
  "add2 a b = Float2 (f2_x a + f2_x b) (f2_y a + f2_y b)"

definition sub2 :: "float2 \<Rightarrow> float2 \<Rightarrow> float2" where
  "sub2 a b = Float2 (f2_x a - f2_x b) (f2_y a - f2_y b)"

text \<open>\<^verbatim>\<open>float2 * float2\<close> is componentwise.\<close>

definition mul2 :: "float2 \<Rightarrow> float2 \<Rightarrow> float2" where
  "mul2 a b = Float2 (f2_x a * f2_x b) (f2_y a * f2_y b)"

definition scale2 :: "float2 \<Rightarrow> real \<Rightarrow> float2" where
  "scale2 a s = Float2 (f2_x a * s) (f2_y a * s)"

text \<open>\<^verbatim>\<open>float / float2\<close> divides the scalar by each component.\<close>

definition sdiv2 :: "real \<Rightarrow> float2 \<Rightarrow> float2" where
  "sdiv2 s a = Float2 (s / f2_x a) (s / f2_y a)"

definition add3 :: "float3 \<Rightarrow> float3 \<Rightarrow> float3" where
  "add3 a b = Float3 (f3_x a + f3_x b) (f3_y a + f3_y b) (f3_z a + f3_z b)"

definition sub3 :: "float3 \<Rightarrow> float3 \<Rightarrow> float3" where
  "sub3 a b = Float3 (f3_x a - f3_x b) (f3_y a - f3_y b) (f3_z a - f3_z b)"

definition neg3 :: "float3 \<Rightarrow> float3" where
  "neg3 a = Float3 (- f3_x a) (- f3_y a) (- f3_z a)"

text \<open>\<^verbatim>\<open>float3 * float\<close> and \<^verbatim>\<open>float * float3\<close>.\<close>

definition scale3 :: "float3 \<Rightarrow> real \<Rightarrow> float3" where
  "scale3 a s = Float3 (f3_x a * s) (f3_y a * s) (f3_z a * s)"

definition dot :: "float3 \<Rightarrow> float3 \<Rightarrow> real" where
  "dot a b = f3_x a * f3_x b + f3_y a * f3_y b + f3_z a * f3_z b"

definition cross :: "float3 \<Rightarrow> float3 \<Rightarrow> float3" where
  "cross a b = Float3 (f3_y a * f3_z b - f3_z a * f3_y b)
                      (f3_z a * f3_x b - f3_x a * f3_z b)
                      (f3_x a * f3_y b - f3_y a * f3_x b)"

text \<open>
  Modelled from the spec: \<^verbatim>\<open>powf\<close> on a \<^verbatim>\<open>float3\<close> is declared in
  \<^verbatim>\<open>boilerplate.cuh\<close>, which is not part of the sources; the specification says the
  cross product is "raised componentwise to the 5th power". The exponent of the only
  call is \<open>5.0\<close>, so the power of a negative component is the odd power.
\<close>

definition powf3_5 :: "float3 \<Rightarrow> float3" where
  "powf3_5 a = Float3 (f3_x a ^ 5) (f3_y a ^ 5) (f3_z a ^ 5)"

definition hypotf :: "real \<Rightarrow> real \<Rightarrow> real" where
  "hypotf a b = sqrt (a\<^sup>2 + b\<^sup>2)"

subsection \<open>Launch variables and external device functions\<close>

text \<open>
  The variables the host runtime binds before a launch. \<^verbatim>\<open>subframe_count()\<close> is a
  function of the runtime without arguments: its value for the launch is a field.
\<close>

record launch =
  launch_index :: uint2
  launch_dim :: uint2
  cam_pos :: float3
  cam_U :: float3
  cam_V :: float3
  cam_W :: float3
  cam_stereo_eyesep :: real
  aa_samples :: int
  max_trans :: int
  subframe_count :: uint
  radiance_ray_type :: uint
  scene_epsilon :: real
  RT_DEFAULT_MAX :: real

subsection \<open>Viewport partition (lines 28 to 47)\<close>

text \<open>
  The template arguments \<^verbatim>\<open>STEREO_ON\<close> and \<^verbatim>\<open>DOF_ON\<close> are only ever tested for
  truth and only instantiated with 0 and 1: they are booleans here. The result is
  \<^verbatim>\<open>(viewport_sz_y, viewport_idx_y, eyeshift)\<close>.
\<close>

definition viewport_partition :: "bool \<Rightarrow> launch \<Rightarrow> uint \<times> uint \<times> real" where
  "viewport_partition STEREO_ON g =
     (if STEREO_ON then
        (let viewport_sz_y = drop_bit 1 (u2_y (launch_dim g)) in
         if u2_y (launch_index g) \<ge> viewport_sz_y
         then \<comment> \<open>left image\<close>
              (viewport_sz_y, u2_y (launch_index g) - viewport_sz_y,
               - 0.5 * cam_stereo_eyesep g)
         else \<comment> \<open>right image\<close>
              (viewport_sz_y, u2_y (launch_index g), 0.5 * cam_stereo_eyesep g))
      else (u2_y (launch_dim g), u2_y (launch_index g), 0))"

definition viewport_sz_y :: "bool \<Rightarrow> launch \<Rightarrow> uint" where
  "viewport_sz_y STEREO_ON g = fst (viewport_partition STEREO_ON g)"

definition viewport_idx_y :: "bool \<Rightarrow> launch \<Rightarrow> uint" where
  "viewport_idx_y STEREO_ON g = fst (snd (viewport_partition STEREO_ON g))"

definition eyeshift :: "bool \<Rightarrow> launch \<Rightarrow> real" where
  "eyeshift STEREO_ON g = snd (snd (viewport_partition STEREO_ON g))"

subsection \<open>Field of view (lines 49 to 63)\<close>

definition fov :: real where
  "fov = 180"

definition rmax :: real where
  "rmax = 0.5 * fov * (pi / 180)"

definition viewport_sz :: "bool \<Rightarrow> launch \<Rightarrow> float2" where
  "viewport_sz STEREO_ON g = make_float2 (u2_x (launch_dim g)) (viewport_sz_y STEREO_ON g)"

definition radperpix :: "bool \<Rightarrow> launch \<Rightarrow> float2" where
  "radperpix STEREO_ON g = sdiv2 ((pi / 180) * fov) (viewport_sz STEREO_ON g)"

definition viewport_mid :: "bool \<Rightarrow> launch \<Rightarrow> float2" where
  "viewport_mid STEREO_ON g = scale2 (viewport_sz STEREO_ON g) 0.5"

subsection \<open>External device functions\<close>

text \<open>
  The payload and the ray, with the fields the program writes. The declaration of
  \<^verbatim>\<open>PerRayData_radiance\<close> is in \<^verbatim>\<open>boilerplate.cuh\<close>; the fields are the ones
  the program names.
\<close>

record PerRayData_radiance =
  result :: float3
  importance :: real
  alpha :: real
  depth :: int
  transcnt :: int

record Ray =
  origin :: float3
  direction :: float3
  ray_type :: uint
  tmin :: real
  tmax :: real

text \<open>
  The device functions the program calls and does not define are parameters. Arguments
  passed by reference come back in the result:
  \<^item> \<^verbatim>\<open>tea<4>(val0, val1)\<close> returns the seed;
  \<^item> \<^verbatim>\<open>jitter_offset2f(randseed, jxy)\<close> returns the offset and the new seed;
  \<^item> \<^verbatim>\<open>dof_ray(origin, origin', direction, direction', randseed, up, right)\<close>
    returns the new origin, the new direction and the new seed;
  \<^item> \<^verbatim>\<open>rtTrace(root_object, ray, prd)\<close> returns the payload.
\<close>

record device =
  tea4 :: "uint \<Rightarrow> uint \<Rightarrow> uint"
  jitter_offset2f :: "uint \<Rightarrow> float2 \<times> uint"
  dof_ray :: "float3 \<Rightarrow> float3 \<Rightarrow> uint \<Rightarrow> float3 \<Rightarrow> float3 \<Rightarrow> float3 \<times> float3 \<times> uint"
  rtTrace :: "Ray \<Rightarrow> PerRayData_radiance \<Rightarrow> PerRayData_radiance"

text \<open>
  What the program does to its environment is the sequence of its external calls, each
  with the arguments it passes.
\<close>

datatype call =
    is_Jitter_offset2f: Jitter_offset2f uint
  | is_Dof_ray: Dof_ray float3 float3 uint float3 float3
  | is_RtTrace: RtTrace Ray PerRayData_radiance
  | is_Accumulate_color: Accumulate_color float3 real

text \<open>
  The local variables that live across the iterations of the sample loop: the seed, the
  accumulators \<^verbatim>\<open>col\<close> and \<^verbatim>\<open>alpha\<close> (named \<open>alpha_acc\<close>, the payload has an
  \<open>alpha\<close> too), and the calls made so far.
\<close>

record locals =
  randseed :: uint
  col :: float3
  alpha_acc :: real
  calls :: "call list"

subsection \<open>Seed (line 65)\<close>

definition init_randseed :: "device \<Rightarrow> launch \<Rightarrow> uint" where
  "init_randseed d g =
     tea4 d (u2_x (launch_dim g) * u2_y (launch_index g) + u2_x (launch_index g))
            (subframe_count g)"

subsection \<open>One sample (lines 70 to 120)\<close>

text \<open>Lines 73 to 77: the sample coordinate, the ray angles and the angular distance.\<close>

definition sample_rd :: "bool \<Rightarrow> launch \<Rightarrow> float2 \<Rightarrow> float2" where
  "sample_rd STEREO_ON g jxy =
     (let viewport_idx =
            add2 (make_float2 (u2_x (launch_index g)) (viewport_idx_y STEREO_ON g)) jxy
      in mul2 (sub2 viewport_idx (viewport_mid STEREO_ON g)) (radperpix STEREO_ON g))"

definition sample_rangle :: "bool \<Rightarrow> launch \<Rightarrow> float2 \<Rightarrow> real" where
  "sample_rangle STEREO_ON g jxy =
     (let rd = sample_rd STEREO_ON g jxy in hypotf (f2_x rd) (f2_y rd))"

text \<open>Lines 90 to 94: the direction of the ray of a sample away from the centre.\<close>

definition fisheye_direction :: "launch \<Rightarrow> float2 \<Rightarrow> real \<Rightarrow> float3" where
  "fisheye_direction g rd rangle =
     (let rasin = sin rangle;
          racos = cos rangle;
          rsin = rasin / rangle
      in add3 (add3 (scale3 (scale3 (cam_U g) rsin) (f2_x rd))
                    (scale3 (scale3 (cam_V g) rsin) (f2_y rd)))
              (scale3 (cam_W g) racos))"

text \<open>
  Lines 82 to 108: origin and direction of the ray, the seed after it, and the calls
  made on the way.
\<close>

definition dome_ray ::
  "bool \<Rightarrow> bool \<Rightarrow> device \<Rightarrow> launch \<Rightarrow> float2 \<Rightarrow> real \<Rightarrow> uint
     \<Rightarrow> float3 \<times> float3 \<times> uint \<times> call list" where
  "dome_ray STEREO_ON DOF_ON d g rd rangle seed =
     (let ray_origin = cam_pos g in
      if rangle = 0 then (ray_origin, cam_W g, seed, [])
      else
        (let rasin = sin rangle;
             racos = cos rangle;
             rcos = racos / rangle;
             ray_direction = fisheye_direction g rd rangle;
             up_direction =
               add3 (sub3 (scale3 (scale3 (neg3 (cam_U g)) rcos) (f2_x rd))
                          (scale3 (scale3 (cam_V g) rcos) (f2_y rd)))
                    (scale3 (cam_W g) rasin);
             right_direction =
               add3 (scale3 (cam_U g) (f2_y rd / rangle))
                    (scale3 (cam_V g) (- f2_x rd / rangle));
             ray_origin =
               (if STEREO_ON
                then add3 ray_origin
                       (scale3 (powf3_5 (cross ray_direction (cam_W g)))
                          (eyeshift STEREO_ON g))
                else ray_origin)
         in if DOF_ON
            then (case dof_ray d ray_origin ray_direction seed up_direction right_direction of
                    (ray_origin', ray_direction', seed') \<Rightarrow>
                      (ray_origin', ray_direction', seed',
                       [Dof_ray ray_origin ray_direction seed up_direction right_direction]))
            else (ray_origin, ray_direction, seed, [])))"

text \<open>
  The body of the loop. \<^verbatim>\<open>prd.result\<close> is not initialised by the program before the
  trace; the payload handed to \<open>rtTrace\<close> carries a zero there.
\<close>

definition sample_body :: "bool \<Rightarrow> bool \<Rightarrow> device \<Rightarrow> launch \<Rightarrow> locals \<Rightarrow> locals" where
  "sample_body STEREO_ON DOF_ON d g st =
     (case jitter_offset2f d (randseed st) of (jxy, seed1) \<Rightarrow>
        (let drawn = calls st @ [Jitter_offset2f (randseed st)];
             rd = sample_rd STEREO_ON g jxy;
             rangle = hypotf (f2_x rd) (f2_y rd)
         in if rangle < rmax then
              (case dome_ray STEREO_ON DOF_ON d g rd rangle seed1 of
                 (ray_origin, ray_direction, seed2, cs) \<Rightarrow>
                   (let prd = \<lparr>result = make_float3 0, importance = 1, alpha = 1,
                                 depth = 0, transcnt = max_trans g\<rparr>;
                        ray = \<lparr>origin = ray_origin, direction = ray_direction,
                                 ray_type = radiance_ray_type g,
                                 tmin = scene_epsilon g, tmax = RT_DEFAULT_MAX g\<rparr>;
                        prd' = rtTrace d ray prd
                    in \<lparr>randseed = seed2,
                         col = add3 (col st) (result prd'),
                         alpha_acc = alpha_acc st + alpha prd',
                         calls = drawn @ cs @ [RtTrace ray prd]\<rparr>))
            else st\<lparr>randseed := seed1, calls := drawn\<rparr>))"

subsection \<open>The sample loop and the program (lines 67 to 123)\<close>

text \<open>
  \<^verbatim>\<open>for (int s=0; s<aa_samples; s++)\<close>. The counter stays below \<open>aa_samples\<close>, an
  \<^verbatim>\<open>int\<close>, so the increment never overflows.
\<close>

function sample_loop :: "bool \<Rightarrow> bool \<Rightarrow> device \<Rightarrow> launch \<Rightarrow> int \<Rightarrow> locals \<Rightarrow> locals" where
  "sample_loop STEREO_ON DOF_ON d g s st =
     (if s < aa_samples g
      then sample_loop STEREO_ON DOF_ON d g (s + 1) (sample_body STEREO_ON DOF_ON d g st)
      else st)"
  by pat_completeness auto
termination
  by (relation "measure (\<lambda>(STEREO_ON, DOF_ON, d, g, s, st). nat (aa_samples g - s))") auto

declare sample_loop.simps [simp del]

definition camera_dome_general :: "bool \<Rightarrow> bool \<Rightarrow> device \<Rightarrow> launch \<Rightarrow> call list" where
  "camera_dome_general STEREO_ON DOF_ON d g =
     (let st0 = \<lparr>randseed = init_randseed d g, col = make_float3 0, alpha_acc = 0,
                  calls = []\<rparr>;
          st = sample_loop STEREO_ON DOF_ON d g 0 st0
      in calls st @ [Accumulate_color (col st) (alpha_acc st)])"

text \<open>The four instantiations (lines 131 to 145).\<close>

definition camera_dome_master :: "device \<Rightarrow> launch \<Rightarrow> call list" where
  "camera_dome_master = camera_dome_general False False"

definition camera_dome_master_dof :: "device \<Rightarrow> launch \<Rightarrow> call list" where
  "camera_dome_master_dof = camera_dome_general False True"

definition camera_dome_master_stereo :: "device \<Rightarrow> launch \<Rightarrow> call list" where
  "camera_dome_master_stereo = camera_dome_general True False"

definition camera_dome_master_stereo_dof :: "device \<Rightarrow> launch \<Rightarrow> call list" where
  "camera_dome_master_stereo_dof = camera_dome_general True True"

subsection \<open>The seed stream of the jitter\<close>

text \<open>
  The seed \<open>jitter_offset2f\<close> leaves behind, the seed after \<open>k\<close> draws in a row,
  and the offset of the draw that follows them.
\<close>

definition next_seed :: "device \<Rightarrow> uint \<Rightarrow> uint" where
  "next_seed d seed = snd (jitter_offset2f d seed)"

definition kth_seed :: "device \<Rightarrow> uint \<Rightarrow> nat \<Rightarrow> uint" where
  "kth_seed d seed k = (next_seed d ^^ k) seed"

definition kth_jitter :: "device \<Rightarrow> uint \<Rightarrow> nat \<Rightarrow> float2" where
  "kth_jitter d seed k = fst (jitter_offset2f d (kth_seed d seed k))"

subsection \<open>The fisheye mapping as the specification writes it\<close>

text \<open>
  The direction of the specification, to be compared with \<open>fisheye_direction\<close>:
  "let \<open>(s, c) = (sin(rangle), cos(rangle))\<close>. Ray direction =
  \<open>right*s*rd.x/rangle + up*s*rd.y/rangle + forward*c\<close>".
\<close>

definition div3 :: "float3 \<Rightarrow> real \<Rightarrow> float3" where
  "div3 a s = Float3 (f3_x a / s) (f3_y a / s) (f3_z a / s)"

definition spec_ray_direction :: "float3 \<Rightarrow> float3 \<Rightarrow> float3 \<Rightarrow> float2 \<Rightarrow> real \<Rightarrow> float3" where
  "spec_ray_direction right up forward rd rangle =
     (let s = sin rangle; c = cos rangle
      in add3 (add3 (div3 (scale3 (scale3 right s) (f2_x rd)) rangle)
                    (div3 (scale3 (scale3 up s) (f2_y rd)) rangle))
              (scale3 forward c))"

text \<open>The camera basis of the data model: three orthonormal vectors.\<close>

definition orthonormal :: "float3 \<Rightarrow> float3 \<Rightarrow> float3 \<Rightarrow> bool" where
  "orthonormal u v w \<longleftrightarrow>
     dot u u = 1 \<and> dot v v = 1 \<and> dot w w = 1 \<and> dot u v = 0 \<and> dot u w = 0 \<and> dot v w = 0"

subsection \<open>Concrete launches and devices\<close>

text \<open>
  The camera of the worked example of the specification (right \<open>(1,0,0)\<close>, up
  \<open>(0,1,0)\<close>, forward \<open>(0,0,1)\<close>, position \<open>(0,0,0)\<close>), for a frame size, a
  pixel, an eye separation and a sample count.
\<close>

definition example_launch :: "uint2 \<Rightarrow> uint2 \<Rightarrow> real \<Rightarrow> int \<Rightarrow> launch" where
  "example_launch dims idx eyesep n =
     \<lparr>launch_index = idx, launch_dim = dims,
      cam_pos = Float3 0 0 0, cam_U = Float3 1 0 0, cam_V = Float3 0 1 0,
      cam_W = Float3 0 0 1, cam_stereo_eyesep = eyesep, aa_samples = n,
      max_trans = 0, subframe_count = 0, radiance_ray_type = 0,
      scene_epsilon = 0, RT_DEFAULT_MAX = 1\<rparr>"

text \<open>
  A device for the closed instances below: the hash adds its arguments, every jitter
  offset is the given one and the seed counts up, the lens leaves the ray alone, and
  every ray sees white.
\<close>

definition example_device :: "float2 \<Rightarrow> device" where
  "example_device jxy =
     \<lparr>tea4 = (\<lambda>val0 val1. val0 + val1),
      jitter_offset2f = (\<lambda>seed. (jxy, seed + 1)),
      dof_ray = (\<lambda>ray_origin ray_direction seed up right.
                   (ray_origin, ray_direction, seed + 1)),
      rtTrace = (\<lambda>ray prd. prd\<lparr>result := Float3 1 1 1\<rparr>)\<rparr>"

section \<open>Properties\<close>

subsection \<open>The field of view and one sample\<close>

lemma rmax_half_pi: "rmax = pi / 2"
  by (simp add: rmax_def fov_def)

lemma sample_rangle_nonneg: "0 \<le> sample_rangle STEREO_ON g jxy"
  by (simp add: sample_rangle_def hypotf_def Let_def)

lemma sample_body_outside:
  assumes "rmax \<le> sample_rangle STEREO_ON g (fst (jitter_offset2f d (randseed st)))"
  shows "sample_body STEREO_ON DOF_ON d g st =
     st\<lparr>randseed := snd (jitter_offset2f d (randseed st)),
        calls := calls st @ [Jitter_offset2f (randseed st)]\<rparr>"
  using assms
  by (simp add: sample_body_def sample_rangle_def Let_def case_prod_beta)

lemma sample_body_inside:
  assumes "sample_rangle STEREO_ON g (fst (jitter_offset2f d (randseed st))) < rmax"
  shows "sample_body STEREO_ON DOF_ON d g st =
     (case dome_ray STEREO_ON DOF_ON d g
             (sample_rd STEREO_ON g (fst (jitter_offset2f d (randseed st))))
             (sample_rangle STEREO_ON g (fst (jitter_offset2f d (randseed st))))
             (snd (jitter_offset2f d (randseed st))) of
        (ray_origin, ray_direction, seed2, cs) \<Rightarrow>
          (let prd = \<lparr>result = make_float3 0, importance = 1, alpha = 1,
                        depth = 0, transcnt = max_trans g\<rparr>;
               ray = \<lparr>origin = ray_origin, direction = ray_direction,
                        ray_type = radiance_ray_type g,
                        tmin = scene_epsilon g, tmax = RT_DEFAULT_MAX g\<rparr>;
               prd' = rtTrace d ray prd
           in \<lparr>randseed = seed2,
                col = add3 (col st) (result prd'),
                alpha_acc = alpha_acc st + alpha prd',
                calls = calls st @ [Jitter_offset2f (randseed st)] @ cs @ [RtTrace ray prd]\<rparr>))"
  using assms
  by (simp add: sample_body_def sample_rangle_def Let_def case_prod_beta)

subsection \<open>The ray of a sample\<close>

lemma dome_ray_centre:
  "dome_ray STEREO_ON DOF_ON d g rd 0 seed = (cam_pos g, cam_W g, seed, [])"
  by (simp add: dome_ray_def)

lemma dome_ray_plain:
  "dome_ray False False d g rd rangle seed =
     (cam_pos g, if rangle = 0 then cam_W g else fisheye_direction g rd rangle, seed, [])"
  by (simp add: dome_ray_def Let_def)

lemma dome_ray_no_dof:
  "snd (snd (dome_ray STEREO_ON False d g rd rangle seed)) = (seed, [])"
  by (simp add: dome_ray_def Let_def)

lemma dome_ray_calls:
  "snd (snd (snd (dome_ray STEREO_ON DOF_ON d g rd rangle seed))) = [] \<or>
   (\<exists>a b c e f. snd (snd (snd (dome_ray STEREO_ON DOF_ON d g rd rangle seed))) = [Dof_ray a b c e f])"
  by (simp add: dome_ray_def Let_def case_prod_beta)

lemma dome_ray_filter_accumulate:
  "filter is_Accumulate_color (snd (snd (snd (dome_ray STEREO_ON DOF_ON d g rd rangle seed)))) = []"
  using dome_ray_calls [of STEREO_ON DOF_ON d g rd rangle seed] by auto

lemma dome_ray_away_no_dof:
  assumes "rangle \<noteq> 0"
  shows "fst (snd (dome_ray STEREO_ON False d g rd rangle seed)) = fisheye_direction g rd rangle"
  using assms by (simp add: dome_ray_def Let_def)

lemma dome_ray_away_dof:
  assumes "rangle \<noteq> 0"
  shows "\<exists>ray_origin up_direction right_direction.
     snd (snd (snd (dome_ray STEREO_ON True d g rd rangle seed))) =
       [Dof_ray ray_origin (fisheye_direction g rd rangle) seed up_direction right_direction]"
  using assms by (simp add: dome_ray_def Let_def case_prod_beta)

lemma fisheye_direction_spec:
  "fisheye_direction g rd rangle = spec_ray_direction (cam_U g) (cam_V g) (cam_W g) rd rangle"
  by (simp add: fisheye_direction_def spec_ray_direction_def Let_def add3_def scale3_def div3_def)

subsection \<open>The calls and the seed of one iteration\<close>

lemma kth_seed_simps:
  "kth_seed d seed 0 = seed"
  "kth_seed d seed (Suc k) = snd (jitter_offset2f d (kth_seed d seed k))"
  by (simp_all add: kth_seed_def next_seed_def)

lemma sample_body_filter_accumulate:
  "filter is_Accumulate_color (calls (sample_body STEREO_ON DOF_ON d g st)) =
   filter is_Accumulate_color (calls st)"
proof (cases "sample_rangle STEREO_ON g (fst (jitter_offset2f d (randseed st))) < rmax")
  case True
  then show ?thesis
    by (simp add: sample_body_inside case_prod_beta Let_def dome_ray_filter_accumulate)
next
  case False
  then show ?thesis
    by (simp add: sample_body_outside)
qed

lemma sample_body_no_dof_seed:
  "randseed (sample_body STEREO_ON False d g st) = snd (jitter_offset2f d (randseed st))"
proof (cases "sample_rangle STEREO_ON g (fst (jitter_offset2f d (randseed st))) < rmax")
  case True
  then show ?thesis
    by (simp add: sample_body_inside case_prod_beta Let_def dome_ray_no_dof)
next
  case False
  then show ?thesis
    by (simp add: sample_body_outside)
qed

lemma sample_body_no_dof_jitter:
  "filter is_Jitter_offset2f (calls (sample_body STEREO_ON False d g st)) =
   filter is_Jitter_offset2f (calls st) @ [Jitter_offset2f (randseed st)]"
proof (cases "sample_rangle STEREO_ON g (fst (jitter_offset2f d (randseed st))) < rmax")
  case True
  then show ?thesis
    by (simp add: sample_body_inside case_prod_beta Let_def dome_ray_no_dof)
next
  case False
  then show ?thesis
    by (simp add: sample_body_outside)
qed

lemma sample_body_plain_origin:
  assumes "RtTrace ray prd \<in> set (calls (sample_body False False d g st))"
  shows "RtTrace ray prd \<in> set (calls st) \<or> origin ray = cam_pos g"
proof (cases "sample_rangle False g (fst (jitter_offset2f d (randseed st))) < rmax")
  case True
  with assms show ?thesis
    by (auto simp: sample_body_inside dome_ray_plain Let_def)
next
  case False
  with assms show ?thesis
    by (simp add: sample_body_outside)
qed

subsection \<open>The loop\<close>

text \<open>
  The loop runs the body \<open>nat (aa_samples g - s)\<close> times: properties of the loop
  are properties of the iterated body, by induction on the number of iterations.
\<close>

lemma sample_loop_funpow:
  "sample_loop STEREO_ON DOF_ON d g s st =
     (sample_body STEREO_ON DOF_ON d g ^^ nat (aa_samples g - s)) st"
proof (induction STEREO_ON DOF_ON d g s st rule: sample_loop.induct)
  case (1 STEREO_ON DOF_ON d g s st)
  show ?case
  proof (cases "s < aa_samples g")
    case True
    then have "nat (aa_samples g - s) = Suc (nat (aa_samples g - (s + 1)))"
      by simp
    with True "1.IH" show ?thesis
      by (simp add: sample_loop.simps [of _ _ _ _ s] funpow_swap1)
  next
    case False
    then show ?thesis
      by (simp add: sample_loop.simps [of _ _ _ _ s])
  qed
qed

lemma camera_dome_general_funpow:
  "camera_dome_general STEREO_ON DOF_ON d g =
     (let st = (sample_body STEREO_ON DOF_ON d g ^^ nat (aa_samples g))
                 \<lparr>randseed = init_randseed d g, col = make_float3 0, alpha_acc = 0,
                    calls = []\<rparr>
      in calls st @ [Accumulate_color (col st) (alpha_acc st)])"
  by (simp add: camera_dome_general_def sample_loop_funpow)

lemma funpow_filter_accumulate:
  "filter is_Accumulate_color (calls ((sample_body STEREO_ON DOF_ON d g ^^ n) st)) =
   filter is_Accumulate_color (calls st)"
  by (induction n) (simp_all add: sample_body_filter_accumulate)

lemma funpow_no_dof_seed:
  "randseed ((sample_body STEREO_ON False d g ^^ n) st) =
   kth_seed d (randseed st) n"
  by (induction n) (simp_all add: sample_body_no_dof_seed kth_seed_simps)

lemma funpow_no_dof_jitter:
  "filter is_Jitter_offset2f (calls ((sample_body STEREO_ON False d g ^^ n) st)) =
   filter is_Jitter_offset2f (calls st) @
   map (\<lambda>k. Jitter_offset2f (kth_seed d (randseed st) k)) [0..<n]"
  by (induction n) (simp_all add: sample_body_no_dof_jitter funpow_no_dof_seed)

lemma funpow_outside:
  assumes "\<forall>k<n. rmax \<le> sample_rangle STEREO_ON g
              (fst (jitter_offset2f d (kth_seed d (randseed st) k)))"
  shows "(sample_body STEREO_ON DOF_ON d g ^^ n) st =
     st\<lparr>randseed := kth_seed d (randseed st) n,
        calls := calls st @
          map (\<lambda>k. Jitter_offset2f (kth_seed d (randseed st) k)) [0..<n]\<rparr>"
  using assms
proof (induction n)
  case 0
  show ?case by (simp add: kth_seed_simps)
next
  case (Suc n)
  then have IH: "(sample_body STEREO_ON DOF_ON d g ^^ n) st =
     st\<lparr>randseed := kth_seed d (randseed st) n,
        calls := calls st @
          map (\<lambda>k. Jitter_offset2f (kth_seed d (randseed st) k)) [0..<n]\<rparr>"
    by simp
  from Suc.prems have out: "rmax \<le> sample_rangle STEREO_ON g
     (fst (jitter_offset2f d (kth_seed d (randseed st) n)))"
    by simp
  show ?case
    using out by (simp add: IH sample_body_outside kth_seed_simps)
qed

lemma funpow_plain_origin:
  assumes "RtTrace ray prd \<in> set (calls ((sample_body False False d g ^^ n) st))"
  shows "RtTrace ray prd \<in> set (calls st) \<or> origin ray = cam_pos g"
  using assms
proof (induction n)
  case 0
  then show ?case by simp
next
  case (Suc n)
  then show ?case
    using sample_body_plain_origin [of ray prd d g "(sample_body False False d g ^^ n) st"]
    by auto
qed

subsection \<open>The 2 by 2 frame of the worked example\<close>

lemma example_launch_simps:
  "launch_dim (example_launch dims idx eyesep n) = dims"
  "launch_index (example_launch dims idx eyesep n) = idx"
  "aa_samples (example_launch dims idx eyesep n) = n"
  "cam_pos (example_launch dims idx eyesep n) = Float3 0 0 0"
  "cam_U (example_launch dims idx eyesep n) = Float3 1 0 0"
  "cam_V (example_launch dims idx eyesep n) = Float3 0 1 0"
  "cam_W (example_launch dims idx eyesep n) = Float3 0 0 1"
  by (simp_all add: example_launch_def)

lemma example_device_jitter:
  "jitter_offset2f (example_device jxy) seed = (jxy, seed + 1)"
  "rtTrace (example_device jxy) ray prd = prd\<lparr>result := Float3 1 1 1\<rparr>"
  by (simp_all add: example_device_def)

lemma example_kth_jitter: "kth_jitter (example_device jxy) seed k = jxy"
  by (simp add: kth_jitter_def example_device_jitter)

lemma example_rd:
  assumes "launch_dim g = Uint2 2 2" "launch_index g = Uint2 0 0"
  shows "sample_rd False g (Float2 jx jy) = Float2 ((jx - 1) * (pi / 2)) ((jy - 1) * (pi / 2))"
  using assms
  by (simp add: sample_rd_def viewport_mid_def radperpix_def viewport_sz_def viewport_sz_y_def
      viewport_idx_y_def viewport_partition_def fov_def make_float2_def add2_def sub2_def
      mul2_def scale2_def sdiv2_def)

lemma example_rangle:
  assumes "launch_dim g = Uint2 2 2" "launch_index g = Uint2 0 0"
  shows "sample_rangle False g (Float2 jx jy) = pi / 2 * sqrt ((1 - jx)\<^sup>2 + (1 - jy)\<^sup>2)"
proof -
  have "((jx - 1) * (pi / 2))\<^sup>2 + ((jy - 1) * (pi / 2))\<^sup>2 =
        (pi / 2)\<^sup>2 * ((1 - jx)\<^sup>2 + (1 - jy)\<^sup>2)"
    by (simp only: power_mult_distrib power2_commute [of _ 1] distrib_left mult.commute)
  then have "sqrt (((jx - 1) * (pi / 2))\<^sup>2 + ((jy - 1) * (pi / 2))\<^sup>2) =
        pi / 2 * sqrt ((1 - jx)\<^sup>2 + (1 - jy)\<^sup>2)"
    by (simp add: real_sqrt_mult)
  then show ?thesis
    by (simp add: sample_rangle_def example_rd [OF assms] hypotf_def)
qed

lemma example_corner:
  assumes "launch_dim g = Uint2 2 2" "launch_index g = Uint2 0 0"
  shows "sample_rangle False g (Float2 0 0) = sqrt 2 * (pi / 2)"
    and "rmax < sample_rangle False g (Float2 0 0)"
proof -
  show corner: "sample_rangle False g (Float2 0 0) = sqrt 2 * (pi / 2)"
    by (simp add: example_rangle [OF assms])
  have "1 < sqrt 2" by simp
  then have "pi / 2 * 1 < pi / 2 * sqrt 2"
    by (simp only: mult_less_cancel_left_pos pi_half_gt_zero)
  then show "rmax < sample_rangle False g (Float2 0 0)"
    by (simp add: corner rmax_half_pi)
qed

lemma example_half:
  assumes "launch_dim g = Uint2 2 2" "launch_index g = Uint2 0 0"
  shows "sample_rangle False g (Float2 (1 / 2) (1 / 2)) < rmax"
proof -
  have "(1 - 1 / 2 :: real)\<^sup>2 + (1 - 1 / 2)\<^sup>2 < 1"
    by (simp add: power2_eq_square)
  then have "sqrt ((1 - 1 / 2 :: real)\<^sup>2 + (1 - 1 / 2)\<^sup>2) < 1"
    by (simp only: real_sqrt_lt_1_iff)
  then have "pi / 2 * sqrt ((1 - 1 / 2 :: real)\<^sup>2 + (1 - 1 / 2)\<^sup>2) < pi / 2 * 1"
    by (simp only: mult_less_cancel_left_pos pi_half_gt_zero)
  then show ?thesis
    by (simp only: example_rangle [OF assms] rmax_half_pi mult_1_right)
qed

lemma example_centre:
  "sample_rangle STEREO_ON (example_launch (Uint2 2 2) (Uint2 1 1) 0 n) (Float2 0 0) =
     (if STEREO_ON then pi / 2 else 0)"
  apply (simp add: sample_rangle_def sample_rd_def viewport_mid_def radperpix_def viewport_sz_def viewport_sz_y_def
      viewport_idx_y_def viewport_partition_def fov_def make_float2_def add2_def sub2_def
      mul2_def scale2_def sdiv2_def hypotf_def example_launch_def)
  done

lemma example_quarter:
  "sample_rd False (example_launch (Uint2 2 2) (Uint2 1 1) 0 n) (Float2 (1 / 2) 0) =
     Float2 (pi / 4) 0"
  "sample_rangle False (example_launch (Uint2 2 2) (Uint2 1 1) 0 n) (Float2 (1 / 2) 0) = pi / 4"
  by (simp_all add: sample_rangle_def sample_rd_def viewport_mid_def radperpix_def
      viewport_sz_def viewport_sz_y_def viewport_idx_y_def viewport_partition_def fov_def
      make_float2_def add2_def sub2_def mul2_def scale2_def sdiv2_def hypotf_def
      example_launch_def)

subsection \<open>Dot products of the fisheye direction\<close>

lemma dot_commute: "dot a b = dot b a"
  by (simp add: dot_def mult.commute)

lemma dot_add3: "dot (add3 a b) c = dot a c + dot b c"
  by (simp add: dot_def add3_def algebra_simps)

lemma dot_scale3: "dot (scale3 a s) c = s * dot a c"
  by (simp add: dot_def scale3_def algebra_simps)

lemma dot_add3_right: "dot c (add3 a b) = dot c a + dot c b"
  by (simp add: dot_def add3_def algebra_simps)

lemma dot_scale3_right: "dot c (scale3 a s) = s * dot c a"
  by (simp add: dot_def scale3_def algebra_simps)

lemma fisheye_dots:
  assumes o: "orthonormal (cam_U g) (cam_V g) (cam_W g)"
  shows "dot (fisheye_direction g rd r) (cam_W g) = cos r"
    and "dot (fisheye_direction g rd r) (cam_U g) = sin r / r * f2_x rd"
    and "dot (fisheye_direction g rd r) (cam_V g) = sin r / r * f2_y rd"
  using o
  by (simp_all add: fisheye_direction_def Let_def dot_add3 dot_scale3 orthonormal_def
      dot_commute [of "cam_V g" "cam_U g"] dot_commute [of "cam_W g" "cam_U g"]
      dot_commute [of "cam_W g" "cam_V g"])

lemma fisheye_unit:
  assumes o: "orthonormal (cam_U g) (cam_V g) (cam_W g)"
    and n: "hypotf (f2_x rd) (f2_y rd) = r" and pos: "0 < r"
  shows "dot (fisheye_direction g rd r) (fisheye_direction g rd r) = 1"
proof -
  have sq: "(f2_x rd)\<^sup>2 + (f2_y rd)\<^sup>2 = r\<^sup>2"
  proof -
    have "(sqrt ((f2_x rd)\<^sup>2 + (f2_y rd)\<^sup>2))\<^sup>2 = r\<^sup>2"
      using n by (simp add: hypotf_def)
    then show ?thesis by simp
  qed
  have "dot (fisheye_direction g rd r) (fisheye_direction g rd r) =
        (sin r / r)\<^sup>2 * ((f2_x rd)\<^sup>2 + (f2_y rd)\<^sup>2) + (cos r)\<^sup>2"
    using fisheye_dots [OF o, of rd r]
    by (subst (2) fisheye_direction_def)
       (simp add: Let_def dot_add3_right dot_scale3_right power2_eq_square algebra_simps)
  also have "\<dots> = (sin r)\<^sup>2 + (cos r)\<^sup>2"
    using pos by (simp add: sq power_divide)
  finally show ?thesis by simp
qed

lemma Arg_scale:
  assumes "0 < k"
  shows "Arg (Complex (k * a) (k * b)) = Arg (Complex a b)"
proof -
  have c: "Complex (k * a) (k * b) = of_real k * Complex a b"
    by (simp add: complex_eq_iff)
  have "sgn (of_real k * Complex a b) = sgn (Complex a b)"
    using assms by (simp add: sgn_mult sgn_of_real)
  moreover have "(of_real k * Complex a b = 0) = (Complex a b = 0)"
    using assms by simp
  ultimately show ?thesis
    unfolding c Arg_def by simp
qed

subsection \<open>Words\<close>

lemma drop_bit_double:
  fixes H :: uint
  assumes "unat H < 2 ^ 31"
  shows "drop_bit 1 (2 * H) = H"
proof -
  have "unat (2 * H) = 2 * unat H"
    using assms by (simp add: unat_word_ariths)
  then have "unat (drop_bit 1 (2 * H)) = unat H"
    by (simp add: drop_bit_eq_div unat_div)
  then show ?thesis by (rule word_unat_eq_iff[THEN iffD2])
qed

lemma viewport_partition_stereo:
  assumes dims: "u2_y (launch_dim g) = 2 * H" and H: "unat H < 2 ^ 31"
  shows "viewport_partition True g =
     (if H \<le> u2_y (launch_index g)
      then (H, u2_y (launch_index g) - H, - 0.5 * cam_stereo_eyesep g)
      else (H, u2_y (launch_index g), 0.5 * cam_stereo_eyesep g))"
proof -
  have sz: "drop_bit 1 (u2_y (launch_dim g)) = H"
    unfolding dims using H by (rule drop_bit_double)
  show ?thesis
    unfolding viewport_partition_def Let_def sz by simp
qed

section \<open>The claims\<close>

subsection \<open>C1: the stereo partition\<close>

text \<open>
  Claim C1, with the signs the program has. With stereo on and a frame of height
  \<open>2 * H\<close>, the viewport is \<open>H\<close> rows high. A pixel of a row \<open>y < H\<close>, the
  right image of the source, keeps its row and has eye shift \<open>+0.5 * cam_stereo_eyesep\<close>.
  A pixel of a row \<open>y \<ge> H\<close>, the left image, has the local row \<open>y - H\<close> and eye
  shift \<open>-0.5 * cam_stereo_eyesep\<close>. The local row is below \<open>H\<close> in both images and
  the row of the frame is the local row plus the offset of its image, so no row of the
  frame belongs to both images.
\<close>

theorem stereo_partition:
  assumes dims: "u2_y (launch_dim g) = 2 * H" and H: "unat H < 2 ^ 31"
    and y: "u2_y (launch_index g) < 2 * H"
  shows "viewport_sz_y True g = H \<and>
    viewport_idx_y True g =
      (if u2_y (launch_index g) < H then u2_y (launch_index g) else u2_y (launch_index g) - H) \<and>
    eyeshift True g =
      (if u2_y (launch_index g) < H then 0.5 * cam_stereo_eyesep g
       else - 0.5 * cam_stereo_eyesep g) \<and>
    viewport_idx_y True g < H \<and>
    u2_y (launch_index g) =
      viewport_idx_y True g + (if u2_y (launch_index g) < H then 0 else H)"
proof -
  note p = viewport_partition_stereo [OF dims H]
  have lt: "u2_y (launch_index g) - H < H" if "H \<le> u2_y (launch_index g)"
  proof -
    have "unat (2 * H) = 2 * unat H"
      using H by (simp add: unat_word_ariths)
    with y have "unat (u2_y (launch_index g)) < 2 * unat H"
      by (simp add: word_less_nat_alt)
    moreover have "unat (u2_y (launch_index g) - H) = unat (u2_y (launch_index g)) - unat H"
      using that by (simp add: unat_sub)
    ultimately show ?thesis
      using that by (simp add: word_less_nat_alt word_le_nat_alt)
  qed
  show ?thesis
  proof (cases "H \<le> u2_y (launch_index g)")
    case True
    then have "\<not> u2_y (launch_index g) < H" by simp
    with True lt show ?thesis
      by (simp add: viewport_sz_y_def viewport_idx_y_def eyeshift_def p)
  next
    case False
    then have "u2_y (launch_index g) < H" by simp
    with False show ?thesis
      by (simp add: viewport_sz_y_def viewport_idx_y_def eyeshift_def p)
  qed
qed

text \<open>
  Row 3 of a frame of height 4: the left image, local row 1, eye shift \<open>-1/2\<close> for an
  eye separation of 1.
\<close>

theorem stereo_partition_witness:
  "viewport_sz_y True (example_launch (Uint2 2 4) (Uint2 0 3) 1 1) = 2 \<and>
   viewport_idx_y True (example_launch (Uint2 2 4) (Uint2 0 3) 1 1) = 1 \<and>
   eyeshift True (example_launch (Uint2 2 4) (Uint2 0 3) 1 1) = - 1 / 2"
  using stereo_partition [of "example_launch (Uint2 2 4) (Uint2 0 3) 1 1" 2]
  by (simp add: example_launch_def)

text \<open>
  The signs of the eye shift are not those of the sentence of the specification, which
  gives \<open>-0.5 * eye_separation\<close> to the rows below \<open>H\<close> and \<open>+0.5 * eye_separation\<close>
  to the others. In a stereo frame of height 2 with eye separation 1, row 0 is below
  the half height 1 and its eye shift is not \<open>-1/2\<close>; row 1 is not below it and its eye
  shift is not \<open>+1/2\<close>.
\<close>

theorem stereo_eyeshift_sign_counterexample:
  "u2_y (launch_index (example_launch (Uint2 2 2) (Uint2 0 0) 1 1))
     < drop_bit 1 (u2_y (launch_dim (example_launch (Uint2 2 2) (Uint2 0 0) 1 1))) \<and>
   eyeshift True (example_launch (Uint2 2 2) (Uint2 0 0) 1 1)
     \<noteq> - 0.5 * cam_stereo_eyesep (example_launch (Uint2 2 2) (Uint2 0 0) 1 1) \<and>
   u2_y (launch_index (example_launch (Uint2 2 2) (Uint2 0 1) 1 1))
     \<ge> drop_bit 1 (u2_y (launch_dim (example_launch (Uint2 2 2) (Uint2 0 1) 1 1))) \<and>
   eyeshift True (example_launch (Uint2 2 2) (Uint2 0 1) 1 1)
     \<noteq> 0.5 * cam_stereo_eyesep (example_launch (Uint2 2 2) (Uint2 0 1) 1 1)"
  by (simp add: example_launch_def eyeshift_def viewport_partition_def)

subsection \<open>C2: samples outside the field of view\<close>

text \<open>
  Claim C2. \<open>rmax\<close> is \<open>pi / 2\<close>. A sample whose angular distance from the centre
  of the dome is at least \<open>rmax\<close> leaves the accumulators \<open>col\<close> and \<open>alpha\<close> as they
  were, and the only call of its iteration is the jitter draw: no ray is traced. This
  holds for each value of \<open>STEREO_ON\<close> and \<open>DOF_ON\<close>.
\<close>

theorem outside_fov_contributes_nothing:
  assumes "rmax \<le> sample_rangle STEREO_ON g (fst (jitter_offset2f d (randseed st)))"
  shows "rmax = pi / 2 \<and>
    col (sample_body STEREO_ON DOF_ON d g st) = col st \<and>
    alpha_acc (sample_body STEREO_ON DOF_ON d g st) = alpha_acc st \<and>
    calls (sample_body STEREO_ON DOF_ON d g st) = calls st @ [Jitter_offset2f (randseed st)]"
  using assms by (simp add: sample_body_outside rmax_half_pi)

text \<open>
  Pixel \<open>(0,0)\<close> of the 2 by 2 frame with the jitter offset \<open>(0,0)\<close> is such a sample.
\<close>

theorem outside_fov_contributes_nothing_witness:
  "rmax \<le> sample_rangle False (example_launch (Uint2 2 2) (Uint2 0 0) 0 1) (Float2 0 0) \<and>
   col (sample_body False False (example_device (Float2 0 0))
          (example_launch (Uint2 2 2) (Uint2 0 0) 0 1)
          \<lparr>randseed = 7, col = Float3 1 2 3, alpha_acc = 1, calls = []\<rparr>) = Float3 1 2 3 \<and>
   alpha_acc (sample_body False False (example_device (Float2 0 0))
          (example_launch (Uint2 2 2) (Uint2 0 0) 0 1)
          \<lparr>randseed = 7, col = Float3 1 2 3, alpha_acc = 1, calls = []\<rparr>) = 1"
proof -
  have out: "rmax \<le> sample_rangle False (example_launch (Uint2 2 2) (Uint2 0 0) 0 1) (Float2 0 0)"
    using example_corner(2) [of "example_launch (Uint2 2 2) (Uint2 0 0) 0 1"]
    by (simp add: example_launch_simps)
  then have "rmax \<le> sample_rangle False (example_launch (Uint2 2 2) (Uint2 0 0) 0 1)
     (fst (jitter_offset2f (example_device (Float2 0 0))
        (randseed \<lparr>randseed = 7, col = Float3 1 2 3, alpha_acc = 1, calls = []\<rparr>)))"
    by (simp add: example_device_jitter)
  from outside_fov_contributes_nothing [OF this, of False] out show ?thesis
    by simp
qed

subsection \<open>C3: the worked example\<close>

text \<open>
  Claim C3, for the sample of the calculation of the specification. In the 2 by 2 frame
  without stereo the centre of the viewport is \<open>(1,1)\<close>. The sample of pixel \<open>(0,0)\<close>
  at the pixel coordinate itself, jitter offset \<open>(0,0)\<close>, has
  \<open>rd = (-pi/2, -pi/2)\<close> and the angular distance \<open>sqrt 2 * (pi / 2) > rmax\<close>; it
  leaves the accumulators as they were. When every sample the loop generates for the
  pixel has an angular distance of at least \<open>rmax\<close>, the program draws its offsets,
  traces nothing and accumulates the color \<open>(0,0,0)\<close> and the alpha \<open>0\<close>.
\<close>

theorem worked_example_pixel:
  assumes "launch_dim g = Uint2 2 2" "launch_index g = Uint2 0 0"
  shows "viewport_mid False g = Float2 1 1 \<and>
    sample_rd False g (Float2 0 0) = Float2 (- (pi / 2)) (- (pi / 2)) \<and>
    sample_rangle False g (Float2 0 0) = sqrt 2 * (pi / 2) \<and>
    rmax < sample_rangle False g (Float2 0 0) \<and>
    (fst (jitter_offset2f d (randseed st)) = Float2 0 0 \<longrightarrow>
       col (sample_body False False d g st) = col st \<and>
       alpha_acc (sample_body False False d g st) = alpha_acc st \<and>
       calls (sample_body False False d g st) = calls st @ [Jitter_offset2f (randseed st)]) \<and>
    ((\<forall>k<nat (aa_samples g).
        rmax \<le> sample_rangle False g (kth_jitter d (init_randseed d g) k)) \<longrightarrow>
     camera_dome_master d g =
       map (\<lambda>k. Jitter_offset2f (kth_seed d (init_randseed d g) k)) [0..<nat (aa_samples g)] @
       [Accumulate_color (make_float3 0) 0])"
proof -
  have mid: "viewport_mid False g = Float2 1 1"
    using assms
    by (simp add: viewport_mid_def viewport_sz_def viewport_sz_y_def viewport_partition_def
        make_float2_def scale2_def)
  have rd: "sample_rd False g (Float2 0 0) = Float2 (- (pi / 2)) (- (pi / 2))"
    by (simp add: example_rd [OF assms])
  note corner = example_corner [OF assms]
  have skip: "col (sample_body False False d g st) = col st \<and>
       alpha_acc (sample_body False False d g st) = alpha_acc st \<and>
       calls (sample_body False False d g st) = calls st @ [Jitter_offset2f (randseed st)]"
    if j: "fst (jitter_offset2f d (randseed st)) = Float2 0 0"
  proof -
    have "rmax \<le> sample_rangle False g (fst (jitter_offset2f d (randseed st)))"
      using corner(2) by (simp add: j)
    then show ?thesis
      by (simp add: sample_body_outside)
  qed
  have black: "camera_dome_master d g =
       map (\<lambda>k. Jitter_offset2f (kth_seed d (init_randseed d g) k)) [0..<nat (aa_samples g)] @
       [Accumulate_color (make_float3 0) 0]"
    if h: "\<forall>k<nat (aa_samples g).
        rmax \<le> sample_rangle False g (kth_jitter d (init_randseed d g) k)"
  proof -
    let ?st0 = "\<lparr>randseed = init_randseed d g, col = make_float3 0, alpha_acc = 0, calls = []\<rparr>"
    from h have "\<forall>k<nat (aa_samples g).
        rmax \<le> sample_rangle False g (fst (jitter_offset2f d (kth_seed d (randseed ?st0) k)))"
      by (simp add: kth_jitter_def)
    from funpow_outside [OF this, of False] show ?thesis
      by (simp add: camera_dome_master_def camera_dome_general_funpow Let_def)
  qed
  from mid rd corner skip black show ?thesis by blast
qed

text \<open>
  Two samples with the offset \<open>(0,0)\<close>: each leaves the accumulators alone, and the
  pixel is accumulated as black.
\<close>

theorem worked_example_pixel_witness:
  "col (sample_body False False (example_device (Float2 0 0))
          (example_launch (Uint2 2 2) (Uint2 0 0) 0 2)
          \<lparr>randseed = 5, col = Float3 1 2 3, alpha_acc = 1, calls = []\<rparr>) = Float3 1 2 3 \<and>
   camera_dome_master (example_device (Float2 0 0)) (example_launch (Uint2 2 2) (Uint2 0 0) 0 2)
     = [Jitter_offset2f 0, Jitter_offset2f 1, Accumulate_color (Float3 0 0 0) 0]"
proof -
  let ?g = "example_launch (Uint2 2 2) (Uint2 0 0) 0 2"
  let ?d = "example_device (Float2 0 0)"
  let ?st = "\<lparr>randseed = 5, col = Float3 1 2 3, alpha_acc = 1, calls = []\<rparr>"
  have dims: "launch_dim ?g = Uint2 2 2" "launch_index ?g = Uint2 0 0"
    by (simp_all add: example_launch_simps)
  note ex = worked_example_pixel [OF dims, where d = ?d and st = ?st]
  have j: "fst (jitter_offset2f ?d (randseed ?st)) = Float2 0 0"
    by (simp add: example_device_jitter)
  from ex have out: "rmax \<le> sample_rangle False ?g (Float2 0 0)"
    by simp
  then have all: "\<forall>k<nat (aa_samples ?g).
      rmax \<le> sample_rangle False ?g (kth_jitter ?d (init_randseed ?d ?g) k)"
    by (simp add: example_kth_jitter)
  from ex j have c: "col (sample_body False False ?d ?g ?st) = Float3 1 2 3"
    by simp
  from ex all have "camera_dome_master ?d ?g =
      map (\<lambda>k. Jitter_offset2f (kth_seed ?d (init_randseed ?d ?g) k)) [0..<nat (aa_samples ?g)] @
      [Accumulate_color (make_float3 0) 0]"
    by blast
  then have "camera_dome_master ?d ?g =
      [Jitter_offset2f 0, Jitter_offset2f 1, Accumulate_color (Float3 0 0 0) 0]"
    by (simp add: kth_seed_def next_seed_def example_device_jitter init_randseed_def
        example_device_def example_launch_def make_float3_def upt_rec numeral_2_eq_2)
  with c show ?thesis by simp
qed

text \<open>
  Not every jitter offset of \<open>[0,1)\<^sup>2\<close> puts the sample of pixel \<open>(0,0)\<close> outside:
  with the offset \<open>(1/2, 1/2)\<close> the angular distance is not above \<open>rmax\<close>, the ray
  is traced, and with one sample and a scene that answers white the pixel accumulates
  the color \<open>(1,1,1)\<close> and the alpha \<open>1\<close>.
\<close>

theorem worked_example_jitter_counterexample:
  "0 \<le> (1 / 2 :: real) \<and> (1 / 2 :: real) < 1 \<and>
   \<not> rmax < sample_rangle False (example_launch (Uint2 2 2) (Uint2 0 0) 0 1)
              (Float2 (1 / 2) (1 / 2)) \<and>
   last (camera_dome_master (example_device (Float2 (1 / 2) (1 / 2)))
           (example_launch (Uint2 2 2) (Uint2 0 0) 0 1)) = Accumulate_color (Float3 1 1 1) 1"
proof -
  let ?g = "example_launch (Uint2 2 2) (Uint2 0 0) 0 1"
  let ?d = "example_device (Float2 (1 / 2) (1 / 2))"
  have inside: "sample_rangle False ?g (Float2 (1 / 2) (1 / 2)) < rmax"
    by (rule example_half) (simp_all add: example_launch_simps)
  have "last (camera_dome_master ?d ?g) = Accumulate_color (Float3 1 1 1) 1"
    using inside
    by (simp add: camera_dome_master_def camera_dome_general_funpow Let_def
        example_launch_simps sample_body_inside example_device_jitter case_prod_beta
        make_float3_def add3_def)
  with inside show ?thesis by simp
qed

subsection \<open>C4: the centre of the dome\<close>

text \<open>
  Claim C4. A sample whose angular distance is exactly \<open>0\<close> is traced along
  \<open>cam_W\<close> from \<open>cam_pos\<close>, for each value of \<open>STEREO_ON\<close> and \<open>DOF_ON\<close>: the
  calls of its iteration are the jitter draw and the trace of that ray, without a call
  of \<open>dof_ray\<close> and without eye shift of the origin.
\<close>

theorem centre_sample_forward:
  assumes "sample_rangle STEREO_ON g (fst (jitter_offset2f d (randseed st))) = 0"
  shows "calls (sample_body STEREO_ON DOF_ON d g st) =
     calls st @
     [Jitter_offset2f (randseed st),
      RtTrace \<lparr>origin = cam_pos g, direction = cam_W g, ray_type = radiance_ray_type g,
               tmin = scene_epsilon g, tmax = RT_DEFAULT_MAX g\<rparr>
              \<lparr>result = make_float3 0, importance = 1, alpha = 1, depth = 0,
               transcnt = max_trans g\<rparr>]"
proof -
  have "sample_rangle STEREO_ON g (fst (jitter_offset2f d (randseed st))) < rmax"
    using assms by (simp add: rmax_half_pi)
  then show ?thesis
    using assms by (simp add: sample_body_inside dome_ray_centre Let_def)
qed

text \<open>
  Pixel \<open>(1,1)\<close> of the 2 by 2 frame with the jitter offset \<open>(0,0)\<close>, in the variant
  with depth of field.
\<close>

theorem centre_sample_forward_witness:
  "sample_rangle False (example_launch (Uint2 2 2) (Uint2 1 1) 0 1) (Float2 0 0) = 0 \<and>
   calls (sample_body False True (example_device (Float2 0 0))
            (example_launch (Uint2 2 2) (Uint2 1 1) 0 1)
            \<lparr>randseed = 7, col = Float3 0 0 0, alpha_acc = 0, calls = []\<rparr>) =
     [Jitter_offset2f 7,
      RtTrace \<lparr>origin = Float3 0 0 0, direction = Float3 0 0 1, ray_type = 0,
               tmin = 0, tmax = 1\<rparr>
              \<lparr>result = Float3 0 0 0, importance = 1, alpha = 1, depth = 0, transcnt = 0\<rparr>]"
proof -
  have c: "sample_rangle False (example_launch (Uint2 2 2) (Uint2 1 1) 0 1) (Float2 0 0) = 0"
    by (simp add: example_centre)
  then have "sample_rangle False (example_launch (Uint2 2 2) (Uint2 1 1) 0 1)
     (fst (jitter_offset2f (example_device (Float2 0 0))
        (randseed \<lparr>randseed = 7, col = Float3 0 0 0, alpha_acc = 0, calls = []\<rparr>))) = 0"
    by (simp add: example_device_jitter)
  from centre_sample_forward [OF this, of True] c show ?thesis
    by (simp add: example_launch_def make_float3_def)
qed

subsection \<open>C5: the equidistant fisheye mapping\<close>

text \<open>
  Claim C5. The radians per pixel are \<open>(pi / 180) * fov\<close> over the width of the
  frame and over the height of the viewport; \<open>rd\<close> is the jittered pixel position minus
  the centre of the viewport, times the radians per pixel, componentwise; \<open>rangle\<close> is
  the Euclidean norm of \<open>rd\<close>. For a sample inside the field of view with
  \<open>rangle > 0\<close>, the direction the program computes is the direction of the
  specification, \<open>right*s*rd.x/rangle + up*s*rd.y/rangle + forward*c\<close>: without depth
  of field it is the direction of the ray that is traced, with depth of field it is the
  direction handed to \<open>dof_ray\<close>.
\<close>

theorem fisheye_mapping:
  assumes jit: "jitter_offset2f d (randseed st) = (Float2 jx jy, seed1)"
    and rd: "rd = sample_rd STEREO_ON g (Float2 jx jy)"
    and rangle: "rangle = sample_rangle STEREO_ON g (Float2 jx jy)"
    and pos: "0 < rangle" and infov: "rangle < rmax"
  shows "radperpix STEREO_ON g =
      Float2 (pi / 180 * fov / real (unat (u2_x (launch_dim g))))
             (pi / 180 * fov / real (unat (viewport_sz_y STEREO_ON g))) \<and>
    rd = Float2 ((real (unat (u2_x (launch_index g))) + jx - f2_x (viewport_mid STEREO_ON g))
                   * f2_x (radperpix STEREO_ON g))
                ((real (unat (viewport_idx_y STEREO_ON g)) + jy - f2_y (viewport_mid STEREO_ON g))
                   * f2_y (radperpix STEREO_ON g)) \<and>
    rangle = sqrt ((f2_x rd)\<^sup>2 + (f2_y rd)\<^sup>2) \<and>
    (\<exists>ray_origin prd.
       calls (sample_body STEREO_ON False d g st) =
         calls st @
         [Jitter_offset2f (randseed st),
          RtTrace \<lparr>origin = ray_origin,
                   direction = spec_ray_direction (cam_U g) (cam_V g) (cam_W g) rd rangle,
                   ray_type = radiance_ray_type g, tmin = scene_epsilon g,
                   tmax = RT_DEFAULT_MAX g\<rparr> prd]) \<and>
    (\<exists>ray_origin up_direction right_direction ray prd.
       calls (sample_body STEREO_ON True d g st) =
         calls st @
         [Jitter_offset2f (randseed st),
          Dof_ray ray_origin (spec_ray_direction (cam_U g) (cam_V g) (cam_W g) rd rangle)
            seed1 up_direction right_direction,
          RtTrace ray prd])"
proof -
  have per: "radperpix STEREO_ON g =
      Float2 (pi / 180 * fov / real (unat (u2_x (launch_dim g))))
             (pi / 180 * fov / real (unat (viewport_sz_y STEREO_ON g)))"
    by (simp add: radperpix_def viewport_sz_def make_float2_def sdiv2_def)
  have rd_eq: "rd = Float2 ((real (unat (u2_x (launch_index g))) + jx - f2_x (viewport_mid STEREO_ON g))
                   * f2_x (radperpix STEREO_ON g))
                ((real (unat (viewport_idx_y STEREO_ON g)) + jy - f2_y (viewport_mid STEREO_ON g))
                   * f2_y (radperpix STEREO_ON g))"
    by (simp add: rd sample_rd_def make_float2_def add2_def sub2_def mul2_def)
  have norm: "rangle = sqrt ((f2_x rd)\<^sup>2 + (f2_y rd)\<^sup>2)"
    by (simp add: rangle rd sample_rangle_def hypotf_def Let_def)
  have inside: "sample_rangle STEREO_ON g (fst (jitter_offset2f d (randseed st))) < rmax"
    using infov by (simp add: jit rangle)
  have nz: "rangle \<noteq> 0" using pos by simp
  have plain: "\<exists>ray_origin prd.
       calls (sample_body STEREO_ON False d g st) =
         calls st @
         [Jitter_offset2f (randseed st),
          RtTrace \<lparr>origin = ray_origin,
                   direction = spec_ray_direction (cam_U g) (cam_V g) (cam_W g) rd rangle,
                   ray_type = radiance_ray_type g, tmin = scene_epsilon g,
                   tmax = RT_DEFAULT_MAX g\<rparr> prd]"
    using dome_ray_away_no_dof [OF nz, of STEREO_ON d g rd seed1]
      dome_ray_no_dof [of STEREO_ON d g rd rangle seed1]
    by (simp add: sample_body_inside [OF inside] case_prod_beta Let_def jit
        rd [symmetric] rangle [symmetric] fisheye_direction_spec)
  have lens: "\<exists>ray_origin up_direction right_direction ray prd.
       calls (sample_body STEREO_ON True d g st) =
         calls st @
         [Jitter_offset2f (randseed st),
          Dof_ray ray_origin (spec_ray_direction (cam_U g) (cam_V g) (cam_W g) rd rangle)
            seed1 up_direction right_direction,
          RtTrace ray prd]"
    using dome_ray_away_dof [OF nz, of STEREO_ON d g rd seed1]
    by (auto simp: sample_body_inside [OF inside] case_prod_beta Let_def jit
        rd [symmetric] rangle [symmetric] fisheye_direction_spec)
  from per rd_eq norm plain lens show ?thesis by blast
qed

text \<open>
  Pixel \<open>(1,1)\<close> of the 2 by 2 frame with the jitter offset \<open>(1/2, 0)\<close>: the angular
  distance is \<open>pi / 4\<close> and the ray leaves halfway between right and forward.
\<close>

theorem fisheye_mapping_witness:
  "0 < sample_rangle False (example_launch (Uint2 2 2) (Uint2 1 1) 0 1) (Float2 (1 / 2) 0) \<and>
   sample_rangle False (example_launch (Uint2 2 2) (Uint2 1 1) 0 1) (Float2 (1 / 2) 0) < rmax \<and>
   (\<exists>ray_origin prd.
      calls (sample_body False False (example_device (Float2 (1 / 2) 0))
               (example_launch (Uint2 2 2) (Uint2 1 1) 0 1)
               \<lparr>randseed = 7, col = Float3 0 0 0, alpha_acc = 0, calls = []\<rparr>) =
        [Jitter_offset2f 7,
         RtTrace \<lparr>origin = ray_origin, direction = Float3 (sqrt 2 / 2) 0 (sqrt 2 / 2),
                  ray_type = 0, tmin = 0, tmax = 1\<rparr> prd])"
proof -
  let ?g = "example_launch (Uint2 2 2) (Uint2 1 1) 0 1"
  have jit: "jitter_offset2f (example_device (Float2 (1 / 2) 0))
      (randseed \<lparr>randseed = 7, col = Float3 0 0 0, alpha_acc = 0, calls = []\<rparr>) =
      (Float2 (1 / 2) 0, 8)"
    by (simp add: example_device_jitter)
  have pos: "0 < sample_rangle False ?g (Float2 (1 / 2) 0)"
    by (simp add: example_quarter)
  have infov: "sample_rangle False ?g (Float2 (1 / 2) 0) < rmax"
    by (simp add: example_quarter rmax_half_pi)
  have dir: "spec_ray_direction (cam_U ?g) (cam_V ?g) (cam_W ?g)
      (sample_rd False ?g (Float2 (1 / 2) 0)) (sample_rangle False ?g (Float2 (1 / 2) 0)) =
      Float3 (sqrt 2 / 2) 0 (sqrt 2 / 2)"
    by (simp add: example_quarter spec_ray_direction_def example_launch_simps add3_def
        scale3_def div3_def sin_45 cos_45)
  from fisheye_mapping [OF jit refl refl pos infov] pos infov show ?thesis
    unfolding dir by (simp add: example_launch_def)
qed

subsection \<open>C6: radial symmetry\<close>

text \<open>
  Claim C6. For an orthonormal camera basis and two offsets \<open>rd1\<close>, \<open>rd2\<close> of the
  same norm \<open>r\<close> with \<open>0 < r < rmax\<close>, both directions are unit vectors whose dot
  product with \<open>cam_W\<close> is \<open>cos r\<close>, so both make the angle \<open>r\<close> with the forward
  axis. The components of each direction along \<open>cam_U\<close> and \<open>cam_V\<close> are those of its
  \<open>rd\<close> times the positive factor \<open>sin r / r\<close>: the azimuth of the direction around
  the forward axis, the argument of the point (right component, up component), is the
  azimuth of \<open>rd\<close>.
\<close>

theorem fisheye_radially_symmetric:
  assumes o: "orthonormal (cam_U g) (cam_V g) (cam_W g)"
    and n1: "hypotf (f2_x rd1) (f2_y rd1) = r" and n2: "hypotf (f2_x rd2) (f2_y rd2) = r"
    and pos: "0 < r" and infov: "r < rmax"
  shows "dot (fisheye_direction g rd1 r) (cam_W g) = cos r \<and>
    dot (fisheye_direction g rd2 r) (cam_W g) = cos r \<and>
    dot (fisheye_direction g rd1 r) (fisheye_direction g rd1 r) = 1 \<and>
    dot (fisheye_direction g rd2 r) (fisheye_direction g rd2 r) = 1 \<and>
    arccos (dot (fisheye_direction g rd1 r) (cam_W g)) = r \<and>
    arccos (dot (fisheye_direction g rd2 r) (cam_W g)) = r \<and>
    0 < sin r / r \<and>
    dot (fisheye_direction g rd1 r) (cam_U g) = sin r / r * f2_x rd1 \<and>
    dot (fisheye_direction g rd1 r) (cam_V g) = sin r / r * f2_y rd1 \<and>
    dot (fisheye_direction g rd2 r) (cam_U g) = sin r / r * f2_x rd2 \<and>
    dot (fisheye_direction g rd2 r) (cam_V g) = sin r / r * f2_y rd2 \<and>
    Arg (Complex (dot (fisheye_direction g rd1 r) (cam_U g))
                 (dot (fisheye_direction g rd1 r) (cam_V g))) =
      Arg (Complex (f2_x rd1) (f2_y rd1)) \<and>
    Arg (Complex (dot (fisheye_direction g rd2 r) (cam_U g))
                 (dot (fisheye_direction g rd2 r) (cam_V g))) =
      Arg (Complex (f2_x rd2) (f2_y rd2))"
proof -
  have "r < pi / 2" using infov by (simp add: rmax_half_pi)
  with pos have lt: "r < pi" by linarith
  have k: "0 < sin r / r"
    using pos lt by (simp add: sin_gt_zero)
  have ang: "arccos (cos r) = r"
    using pos lt by (simp add: arccos_cos)
  note d1 = fisheye_dots [OF o, of rd1 r] and d2 = fisheye_dots [OF o, of rd2 r]
  show ?thesis
    unfolding d1 d2 fisheye_unit [OF o n1 pos] fisheye_unit [OF o n2 pos] Arg_scale [OF k]
    using k ang by simp
qed

text \<open>
  The offsets \<open>(pi/4, 0)\<close> and \<open>(0, pi/4)\<close> with the camera of the worked example.
\<close>

theorem fisheye_radially_symmetric_witness:
  "orthonormal (Float3 1 0 0) (Float3 0 1 0) (Float3 0 0 1) \<and>
   hypotf (pi / 4) 0 = pi / 4 \<and> hypotf 0 (pi / 4) = pi / 4 \<and> 0 < pi / 4 \<and> pi / 4 < rmax \<and>
   dot (fisheye_direction (example_launch (Uint2 2 2) (Uint2 1 1) 0 1) (Float2 (pi / 4) 0)
          (pi / 4)) (Float3 0 0 1) = sqrt 2 / 2 \<and>
   dot (fisheye_direction (example_launch (Uint2 2 2) (Uint2 1 1) 0 1) (Float2 0 (pi / 4))
          (pi / 4)) (Float3 0 0 1) = sqrt 2 / 2"
proof -
  let ?g = "example_launch (Uint2 2 2) (Uint2 1 1) 0 1"
  have o: "orthonormal (cam_U ?g) (cam_V ?g) (cam_W ?g)"
    by (simp add: orthonormal_def dot_def example_launch_def)
  have n1: "hypotf (f2_x (Float2 (pi / 4) 0)) (f2_y (Float2 (pi / 4) 0)) = pi / 4"
    by (simp add: hypotf_def)
  have n2: "hypotf (f2_x (Float2 0 (pi / 4))) (f2_y (Float2 0 (pi / 4))) = pi / 4"
    by (simp add: hypotf_def)
  have pos: "0 < pi / 4"
    by simp
  have infov: "pi / 4 < rmax"
    by (simp add: rmax_half_pi)
  from fisheye_radially_symmetric [OF o n1 n2 pos infov] o n1 n2 infov
  show ?thesis
    by (simp add: example_launch_simps cos_45)
qed

subsection \<open>C7: the origin without stereo and depth of field\<close>

text \<open>
  Claim C7. Every ray that \<open>camera_dome_master\<close>, the variant without stereo and
  without depth of field, hands to \<open>rtTrace\<close> has the origin \<open>cam_pos\<close>.
\<close>

theorem plain_origin_is_cam_pos:
  assumes "RtTrace ray prd \<in> set (camera_dome_master d g)"
  shows "origin ray = cam_pos g"
  using assms
    funpow_plain_origin [where ray = ray and prd = prd and d = d and g = g
      and n = "nat (aa_samples g)"
      and st = "\<lparr>randseed = init_randseed d g, col = make_float3 0, alpha_acc = 0,
                  calls = []\<rparr>"]
  by (simp add: camera_dome_master_def camera_dome_general_funpow Let_def)

text \<open>
  The ray of pixel \<open>(1,1)\<close> of the 2 by 2 frame with the jitter offset \<open>(0,0)\<close>.
\<close>

theorem plain_origin_is_cam_pos_witness:
  "RtTrace \<lparr>origin = Float3 0 0 0, direction = Float3 0 0 1, ray_type = 0, tmin = 0, tmax = 1\<rparr>
           \<lparr>result = Float3 0 0 0, importance = 1, alpha = 1, depth = 0, transcnt = 0\<rparr>
     \<in> set (camera_dome_master (example_device (Float2 0 0))
              (example_launch (Uint2 2 2) (Uint2 1 1) 0 1)) \<and>
   origin \<lparr>origin = Float3 0 0 0, direction = Float3 0 0 1, ray_type = 0, tmin = 0, tmax = 1\<rparr>
     = cam_pos (example_launch (Uint2 2 2) (Uint2 1 1) 0 1)"
proof -
  have "sample_rangle False (example_launch (Uint2 2 2) (Uint2 1 1) 0 1) (Float2 0 0) < rmax"
    by (simp add: example_centre rmax_half_pi)
  then have mem: "RtTrace \<lparr>origin = Float3 0 0 0, direction = Float3 0 0 1, ray_type = 0, tmin = 0, tmax = 1\<rparr>
           \<lparr>result = Float3 0 0 0, importance = 1, alpha = 1, depth = 0, transcnt = 0\<rparr>
     \<in> set (camera_dome_master (example_device (Float2 0 0))
              (example_launch (Uint2 2 2) (Uint2 1 1) 0 1))"
    by (simp add: camera_dome_master_def camera_dome_general_funpow Let_def
        example_launch_simps sample_body_inside example_device_jitter case_prod_beta
        dome_ray_plain example_centre)
       (simp add: example_launch_def make_float3_def)
  from plain_origin_is_cam_pos [OF mem] mem show ?thesis
    by simp
qed

subsection \<open>C9: one accumulation\<close>

text \<open>
  Claim C9. In each of the four variants the calls of the program contain exactly one
  call of \<open>accumulate_color\<close>, and it is the last call. When every sample of the pixel
  is outside the field of view, the calls are the jitter draws followed by the
  accumulation of the color \<open>(0,0,0)\<close> and the alpha \<open>0\<close>.
\<close>

theorem accumulate_exactly_once:
  "length (filter is_Accumulate_color (camera_dome_general STEREO_ON DOF_ON d g)) = 1 \<and>
   is_Accumulate_color (last (camera_dome_general STEREO_ON DOF_ON d g)) \<and>
   ((\<forall>k<nat (aa_samples g).
       rmax \<le> sample_rangle STEREO_ON g (kth_jitter d (init_randseed d g) k)) \<longrightarrow>
    camera_dome_general STEREO_ON DOF_ON d g =
      map (\<lambda>k. Jitter_offset2f (kth_seed d (init_randseed d g) k)) [0..<nat (aa_samples g)] @
      [Accumulate_color (make_float3 0) 0])"
proof -
  let ?st0 = "\<lparr>randseed = init_randseed d g, col = make_float3 0, alpha_acc = 0, calls = []\<rparr>"
  have once: "length (filter is_Accumulate_color (camera_dome_general STEREO_ON DOF_ON d g)) = 1"
    by (simp add: camera_dome_general_funpow Let_def funpow_filter_accumulate)
  have last: "is_Accumulate_color (last (camera_dome_general STEREO_ON DOF_ON d g))"
    by (simp add: camera_dome_general_funpow Let_def)
  have black: "camera_dome_general STEREO_ON DOF_ON d g =
      map (\<lambda>k. Jitter_offset2f (kth_seed d (init_randseed d g) k)) [0..<nat (aa_samples g)] @
      [Accumulate_color (make_float3 0) 0]"
    if "\<forall>k<nat (aa_samples g).
       rmax \<le> sample_rangle STEREO_ON g (kth_jitter d (init_randseed d g) k)"
  proof -
    from that have "\<forall>k<nat (aa_samples g). rmax \<le> sample_rangle STEREO_ON g
        (fst (jitter_offset2f d (kth_seed d (randseed ?st0) k)))"
      by (simp add: kth_jitter_def)
    from funpow_outside [OF this, of DOF_ON] show ?thesis
      by (simp add: camera_dome_general_funpow Let_def)
  qed
  from once last black show ?thesis by blast
qed

text \<open>
  Two samples of pixel \<open>(1,1)\<close> of a 2 by 2 stereo frame, both on the rim.
\<close>

theorem accumulate_exactly_once_witness:
  "camera_dome_general True True (example_device (Float2 0 0))
     (example_launch (Uint2 2 2) (Uint2 1 1) 0 2) =
   [Jitter_offset2f 3, Jitter_offset2f 4, Accumulate_color (Float3 0 0 0) 0]"
proof -
  have "\<forall>k<nat (aa_samples (example_launch (Uint2 2 2) (Uint2 1 1) 0 2)).
     rmax \<le> sample_rangle True (example_launch (Uint2 2 2) (Uint2 1 1) 0 2)
       (kth_jitter (example_device (Float2 0 0))
          (init_randseed (example_device (Float2 0 0))
             (example_launch (Uint2 2 2) (Uint2 1 1) 0 2)) k)"
    by (simp add: example_kth_jitter example_centre rmax_half_pi)
  with accumulate_exactly_once [of True True "example_device (Float2 0 0)"
      "example_launch (Uint2 2 2) (Uint2 1 1) 0 2"]
  show ?thesis
    by (simp add: example_launch_simps kth_seed_def next_seed_def example_device_jitter
        init_randseed_def example_device_def example_launch_def make_float3_def upt_rec
        numeral_2_eq_2)
qed

subsection \<open>C10: the jitter draws without depth of field\<close>

text \<open>
  Claim C10. Without depth of field an iteration leaves the seed that its jitter draw
  leaves, whether the sample is traced or not, and its jitter draw is its only one. So
  the draws of an invocation are \<open>aa_samples\<close> many, and the \<open>k\<close>-th is made with the
  seed \<open>kth_seed d (init_randseed d g) k\<close>, a function of the initial seed and \<open>k\<close>
  alone.
\<close>

theorem jitter_draws_without_dof:
  "randseed (sample_body STEREO_ON False d g st) = next_seed d (randseed st) \<and>
   filter is_Jitter_offset2f (calls (sample_body STEREO_ON False d g st)) =
     filter is_Jitter_offset2f (calls st) @ [Jitter_offset2f (randseed st)] \<and>
   filter is_Jitter_offset2f (camera_dome_general STEREO_ON False d g) =
     map (\<lambda>k. Jitter_offset2f (kth_seed d (init_randseed d g) k)) [0..<nat (aa_samples g)] \<and>
   length (filter is_Jitter_offset2f (camera_dome_general STEREO_ON False d g)) =
     nat (aa_samples g)"
proof -
  have draws: "filter is_Jitter_offset2f (camera_dome_general STEREO_ON False d g) =
     map (\<lambda>k. Jitter_offset2f (kth_seed d (init_randseed d g) k)) [0..<nat (aa_samples g)]"
    by (simp add: camera_dome_general_funpow Let_def funpow_no_dof_jitter)
  then have "length (filter is_Jitter_offset2f (camera_dome_general STEREO_ON False d g)) =
     nat (aa_samples g)"
    by simp
  with draws show ?thesis
    by (simp add: sample_body_no_dof_seed sample_body_no_dof_jitter next_seed_def)
qed

end
